theory Spec2Isabelle
  imports Complex_Main
begin

section \<open>Numbers, errors and formatted text\<close>

text \<open>
  The calculation engine of \<^verbatim>\<open>app.py\<close> consists of three pure functions:
  \<^verbatim>\<open>calculate_metrics\<close>, \<^verbatim>\<open>calculate_cash_flow_projection\<close> and
  \<^verbatim>\<open>analyze_risk\<close>. Python's \<^verbatim>\<open>int\<close> and \<^verbatim>\<open>float\<close> arguments are
  read as exact real numbers: every formula below is the source's formula in exact
  arithmetic, without the rounding and the overflow of IEEE doubles. The one value of
  \<^verbatim>\<open>float\<close> that is not a real number and that the source builds itself is
  \<^verbatim>\<open>float('inf')\<close>; it is kept as a value of its own.
\<close>

datatype py_float = Finite real | PosInf

text \<open>The two exceptions that the arithmetic and the table lookup of the source can raise.\<close>

datatype py_error = KeyError | ZeroDivisionError

text \<open>
  \<^verbatim>\<open>x ** n\<close> for an integer exponent. A negative exponent gives the reciprocal.
  Every call site below passes a literal exponent, an exponent guarded to be positive,
  or \<^verbatim>\<open>year - 1\<close> and \<^verbatim>\<open>year\<close> for a loop variable that starts at 1.
\<close>

definition py_pow :: "real \<Rightarrow> int \<Rightarrow> real" where
  "py_pow x n = (if 0 \<le> n then x ^ nat n else 1 / x ^ nat (- n))"

text \<open>
  An f-string is kept as the sequence of its parts: literal text, and the values it
  formats with the default format, with \<^verbatim>\<open>:.1f\<close>, or as an integer.
\<close>

datatype fpart = Lit string | Num real | Num1 real | NumI int

section \<open>Market conditions\<close>

record market_impact =
  vacancy_impact :: int
  appreciation_impact :: int
  price_trend :: int

definition MARKET_CONDITIONS :: "(string \<times> market_impact) list" where
  "MARKET_CONDITIONS =
    [(''Strong Growth'', \<lparr>vacancy_impact = - 2, appreciation_impact = 2, price_trend = 5\<rparr>),
     (''Stable'', \<lparr>vacancy_impact = 0, appreciation_impact = 0, price_trend = 2\<rparr>),
     (''Declining'', \<lparr>vacancy_impact = 3, appreciation_impact = - 2, price_trend = - 3\<rparr>),
     (''Volatile'', \<lparr>vacancy_impact = 2, appreciation_impact = 1, price_trend = 0\<rparr>)]"

section \<open>Investment metrics\<close>

record metrics =
  monthly_cash_flow :: real
  annual_cash_flow :: real
  roi :: real
  cap_rate :: real
  cash_on_cash :: real
  mortgage_payment :: real
  break_even_months :: py_float
  tax_savings :: real
  after_tax_cash_flow :: real
  future_value_5yr :: real
  future_value_10yr :: real
  future_value_20yr :: real
  total_equity_5yr :: real
  total_equity_10yr :: real
  initial_investment :: real

text \<open>
  \<^verbatim>\<open>calculate_metrics\<close>, statement by statement. The two growth arguments are
  accepted and never read, as in the source. \<^verbatim>\<open>loan_term\<close> is the integer number of
  years that the form supplies.
\<close>

definition calculate_metrics ::
  "real \<Rightarrow> real \<Rightarrow> real \<Rightarrow> real \<Rightarrow> real \<Rightarrow> int \<Rightarrow> real \<Rightarrow> real \<Rightarrow> real \<Rightarrow> real \<Rightarrow> real \<Rightarrow>
   real \<Rightarrow> real \<Rightarrow> metrics" where
  "calculate_metrics price rental_income expenses down_payment loan_rate loan_term
      vacancy_rate appreciation_rate tax_rate closing_costs renovation_costs
      annual_income_growth annual_expense_growth =
    (let initial_investment = down_payment + closing_costs + renovation_costs;
         loan_amount = price - down_payment;
         monthly_interest_rate = (if loan_rate > 0 then loan_rate / 12 / 100 else 0);
         num_payments = (if loan_term > 0 then loan_term * 12 else 0);
         mortgage_payment =
           (if loan_amount > 0 \<and> monthly_interest_rate > 0 \<and> num_payments > 0
            then (loan_amount * monthly_interest_rate
                    * py_pow (1 + monthly_interest_rate) num_payments)
                 / (py_pow (1 + monthly_interest_rate) num_payments - 1)
            else 0);
         effective_rental_income = rental_income * (1 - vacancy_rate / 100);
         monthly_cash_flow = effective_rental_income - expenses - mortgage_payment;
         annual_cash_flow = monthly_cash_flow * 12;
         roi = (if initial_investment > 0
                then (annual_cash_flow / initial_investment) * 100 else 0);
         cap_rate = (if price > 0
                     then ((effective_rental_income - expenses) * 12 / price) * 100 else 0);
         cash_on_cash = (if initial_investment > 0
                         then (annual_cash_flow / initial_investment) * 100 else 0);
         break_even = (if monthly_cash_flow > 0
                       then Finite (initial_investment / monthly_cash_flow) else PosInf);
         depreciation_period = 27.5;
         annual_depreciation = (price - (price * 0.2)) / depreciation_period;
         taxable_income = effective_rental_income * 12 - expenses * 12 - annual_depreciation
                          - mortgage_payment * 12 * loan_rate / 100;
         tax_savings = max 0 (taxable_income * tax_rate / 100);
         after_tax_cash_flow = annual_cash_flow + tax_savings;
         future_value_5yr = price * py_pow (1 + appreciation_rate / 100) 5;
         future_value_10yr = price * py_pow (1 + appreciation_rate / 100) 10;
         future_value_20yr = price * py_pow (1 + appreciation_rate / 100) 20;
         remaining_balance = loan_amount;
         total_equity_5yr = (if loan_term \<ge> 5 then future_value_5yr - remaining_balance
                             else future_value_5yr);
         total_equity_10yr = (if loan_term \<ge> 10 then future_value_10yr - remaining_balance
                              else future_value_10yr)
     in \<lparr>monthly_cash_flow = monthly_cash_flow,
         annual_cash_flow = annual_cash_flow,
         roi = roi,
         cap_rate = cap_rate,
         cash_on_cash = cash_on_cash,
         mortgage_payment = mortgage_payment,
         break_even_months = break_even,
         tax_savings = tax_savings,
         after_tax_cash_flow = after_tax_cash_flow,
         future_value_5yr = future_value_5yr,
         future_value_10yr = future_value_10yr,
         future_value_20yr = future_value_20yr,
         total_equity_5yr = total_equity_5yr,
         total_equity_10yr = total_equity_10yr,
         initial_investment = initial_investment\<rparr>)"

section \<open>Cash flow projection\<close>

record projection_row =
  year :: int
  property_value :: real
  annual_income :: real
  annual_expenses :: real
  annual_mortgage :: real
  annual_cash_flow :: real
  cumulative_cash_flow :: real

text \<open>
  The opening block of \<^verbatim>\<open>calculate_cash_flow_projection\<close>: the value of its local
  variable \<^verbatim>\<open>mortgage_payment\<close>. Unlike \<^verbatim>\<open>calculate_metrics\<close>, neither the
  monthly rate nor the number of payments is guarded before the test.
\<close>

definition projection_mortgage_payment :: "real \<Rightarrow> real \<Rightarrow> real \<Rightarrow> int \<Rightarrow> real" where
  "projection_mortgage_payment price down_payment loan_rate loan_term =
    (let loan_amount = price - down_payment;
         monthly_interest_rate = loan_rate / 12 / 100;
         num_payments = loan_term * 12
     in if loan_amount > 0 \<and> monthly_interest_rate > 0 \<and> num_payments > 0
        then (loan_amount * monthly_interest_rate
                * py_pow (1 + monthly_interest_rate) num_payments)
             / (py_pow (1 + monthly_interest_rate) num_payments - 1)
        else 0)"

text \<open>The body of the loop: the row appended for one value of \<^verbatim>\<open>year\<close>.\<close>

definition projection_step ::
  "real \<Rightarrow> real \<Rightarrow> real \<Rightarrow> real \<Rightarrow> real \<Rightarrow> real \<Rightarrow> real \<Rightarrow> real \<Rightarrow> int \<Rightarrow> projection_row" where
  "projection_step price rental_income expenses vacancy_rate appreciation_rate
      annual_income_growth annual_expense_growth mortgage_payment year =
    (let year_rental_income =
           rental_income * (py_pow (1 + annual_income_growth / 100) (year - 1));
         year_expenses = expenses * (py_pow (1 + annual_expense_growth / 100) (year - 1));
         effective_rental_income = year_rental_income * (1 - vacancy_rate / 100);
         annual_mortgage = mortgage_payment * 12;
         annual_income = effective_rental_income * 12;
         annual_expenses = year_expenses * 12;
         annual_cash_flow = annual_income - annual_expenses - annual_mortgage;
         property_value = price * (py_pow (1 + appreciation_rate / 100) year)
     in \<lparr>year = year,
         property_value = property_value,
         annual_income = annual_income,
         annual_expenses = annual_expenses,
         annual_mortgage = annual_mortgage,
         annual_cash_flow = annual_cash_flow,
         cumulative_cash_flow = annual_cash_flow * of_int year\<rparr>)"
  for mortgage_payment :: real and year :: int

text \<open>
  The loop \<^verbatim>\<open>for year in range(1, years + 1)\<close> appends one row to
  \<^verbatim>\<open>projection_data\<close> per year; the range is empty when \<^verbatim>\<open>years < 1\<close>.
\<close>

definition calculate_cash_flow_projection ::
  "real \<Rightarrow> real \<Rightarrow> real \<Rightarrow> real \<Rightarrow> real \<Rightarrow> int \<Rightarrow> real \<Rightarrow> real \<Rightarrow> int \<Rightarrow> real \<Rightarrow> real \<Rightarrow>
   projection_row list" where
  "calculate_cash_flow_projection price rental_income expenses down_payment loan_rate
      loan_term vacancy_rate appreciation_rate years annual_income_growth
      annual_expense_growth =
    (let mortgage_payment =
           projection_mortgage_payment price down_payment loan_rate loan_term
     in foldl (\<lambda>projection_data year.
                 projection_data @
                 [projection_step price rental_income expenses vacancy_rate
                    appreciation_rate annual_income_growth annual_expense_growth
                    mortgage_payment year])
          [] [1..years])"

section \<open>Risk analysis\<close>

record risk_factor =
  score :: int
  description :: "fpart list"

record risk_analysis =
  overall_risk :: string
  risk_class :: string
  risk_score :: real
  factors :: "(string \<times> risk_factor) list"

text \<open>
  \<^verbatim>\<open>analyze_risk\<close>. The lookup in the table comes first and raises
  \<^verbatim>\<open>KeyError\<close> for an unknown label; the two divisions by
  \<^verbatim>\<open>rental_income * 12\<close> follow and raise \<^verbatim>\<open>ZeroDivisionError\<close> when the
  divisor is zero. The dictionary of factors keeps its insertion order, so it is an
  association list. The argument \<^verbatim>\<open>location\<close> is accepted and never read.
\<close>

definition analyze_risk ::
  "real \<Rightarrow> real \<Rightarrow> real \<Rightarrow> real \<Rightarrow> string \<Rightarrow> int \<Rightarrow> string \<Rightarrow> py_error + risk_analysis" where
  "analyze_risk price vacancy_rate expenses rental_income market_condition property_age
      location =
    (case map_of MARKET_CONDITIONS market_condition of
       None \<Rightarrow> Inl KeyError
     | Some impact \<Rightarrow>
        (let adjusted_vacancy = vacancy_rate + of_int (vacancy_impact impact)
         in if rental_income * 12 = 0 then Inl ZeroDivisionError
            else
             (let price_to_rent = price / (rental_income * 12);
                  expense_ratio = (expenses * 12) / (rental_income * 12) * 100;
                  risk_factors =
                   [(''Vacancy Risk'',
                     \<lparr>score = (if adjusted_vacancy < 5 then 1
                                else (if adjusted_vacancy < 8 then 2 else 3)),
                      description =
                        [Lit ''Adjusted vacancy rate of '', Num adjusted_vacancy,
                         Lit ''% indicates '',
                         Lit (if adjusted_vacancy < 5 then ''low''
                              else (if adjusted_vacancy < 8 then ''moderate'' else ''high'')),
                         Lit '' risk.'']\<rparr>),
                    (''Price to Rent Ratio'',
                     \<lparr>score = (if price_to_rent < 15 then 1
                                else (if price_to_rent < 20 then 2 else 3)),
                      description =
                        [Lit ''Price to annual rent ratio of '', Num1 price_to_rent,
                         Lit '' indicates '',
                         Lit (if price_to_rent < 15 then ''good''
                              else (if price_to_rent < 20 then ''fair'' else ''poor'')),
                         Lit '' cash flow potential.'']\<rparr>),
                    (''Expense Ratio'',
                     \<lparr>score = (if expense_ratio < 35 then 1
                                else (if expense_ratio < 45 then 2 else 3)),
                      description =
                        [Lit ''Expense ratio of '', Num1 expense_ratio, Lit ''% is '',
                         Lit (if expense_ratio < 35 then ''favorable''
                              else (if expense_ratio < 45 then ''typical''
                                    else ''concerning'')),
                         Lit ''.'']\<rparr>),
                    (''Market Condition'',
                     \<lparr>score = (if market_condition \<in> set [''Strong Growth'', ''Stable''] then 1
                                else (if market_condition = ''Volatile'' then 2 else 3)),
                      description =
                        [Lit market_condition, Lit '' market suggests '',
                         Lit (if market_condition \<in> set [''Strong Growth'', ''Stable'']
                              then ''low''
                              else (if market_condition = ''Volatile'' then ''moderate''
                                    else ''high'')),
                         Lit '' risk.'']\<rparr>),
                    (''Property Age'',
                     \<lparr>score = (if property_age < 10 then 1
                                else (if property_age < 30 then 2 else 3)),
                      description =
                        [NumI property_age, Lit '' year old property has '',
                         Lit (if property_age < 10 then ''low''
                              else (if property_age < 30 then ''moderate'' else ''high'')),
                         Lit '' maintenance risk.'']\<rparr>)];
                  avg_score = of_int (sum_list (map (\<lambda>factor. score (snd factor)) risk_factors))
                              / of_nat (length risk_factors)
              in if avg_score < 1.7
                 then Inr \<lparr>overall_risk = ''Low'', risk_class = ''risk-low'',
                           risk_score = avg_score, factors = risk_factors\<rparr>
                 else if avg_score < 2.3
                 then Inr \<lparr>overall_risk = ''Medium'', risk_class = ''risk-medium'',
                           risk_score = avg_score, factors = risk_factors\<rparr>
                 else Inr \<lparr>overall_risk = ''High'', risk_class = ''risk-high'',
                           risk_score = avg_score, factors = risk_factors\<rparr>)))"

section \<open>Auxiliary facts\<close>

lemma py_pow_nonneg: "0 \<le> n \<Longrightarrow> py_pow x n = x ^ nat n"
  by (simp add: py_pow_def)

lemma foldl_append_map: "foldl (\<lambda>acc y. acc @ [f y]) a xs = a @ map f xs"
  by (induction xs arbitrary: a) simp_all

lemma projection_rows_map:
  "calculate_cash_flow_projection price rental_income expenses down_payment loan_rate
     loan_term vacancy_rate appreciation_rate years annual_income_growth
     annual_expense_growth
   = map (projection_step price rental_income expenses vacancy_rate appreciation_rate
            annual_income_growth annual_expense_growth
            (projection_mortgage_payment price down_payment loan_rate loan_term))
       [1..years]"
  by (simp add: calculate_cash_flow_projection_def Let_def foldl_append_map)

lemma upto_from_one_nth: "1 \<le> t \<Longrightarrow> t \<le> years \<Longrightarrow> [1..years] ! nat (t - 1) = t"
  by simp

section \<open>Break-even point\<close>

text \<open>
  Claim C1, as the code has it. When the monthly cash flow is positive,
  \<^verbatim>\<open>break_even_months\<close> is the initial investment divided by the monthly cash flow.
  When the monthly cash flow is zero or negative, the result is \<^verbatim>\<open>float('inf')\<close>:
  a value of the numeric type, which the display code compares against
  \<^verbatim>\<open>float('inf')\<close> to print \<^verbatim>\<open>N/A\<close>.
\<close>

theorem break_even_months_value:
  "let m = calculate_metrics price rental_income expenses down_payment loan_rate loan_term
             vacancy_rate appreciation_rate tax_rate closing_costs renovation_costs
             annual_income_growth annual_expense_growth
   in (monthly_cash_flow m > 0 \<longrightarrow>
         break_even_months m = Finite (initial_investment m / monthly_cash_flow m)) \<and>
      (monthly_cash_flow m \<le> 0 \<longrightarrow> break_even_months m = PosInf)"
  by (simp add: calculate_metrics_def Let_def)

text \<open>
  Both branches at concrete inputs: an all-cash purchase with a rent of 2000 recovers
  309000 at 1300 a month; with a rent of 500 the cash flow is -125 and the result is
  infinity.
\<close>

theorem break_even_months_value_witness:
  "monthly_cash_flow (calculate_metrics 300000 2000 600 300000 5.5 30 5 3 25 9000 0 2 3) > 0 \<and>
   break_even_months (calculate_metrics 300000 2000 600 300000 5.5 30 5 3 25 9000 0 2 3)
     = Finite (3090 / 13) \<and>
   monthly_cash_flow (calculate_metrics 300000 500 600 300000 5.5 30 5 3 25 9000 0 2 3) \<le> 0 \<and>
   break_even_months (calculate_metrics 300000 500 600 300000 5.5 30 5 3 25 9000 0 2 3)
     = PosInf"
proof -
  have pos: "monthly_cash_flow
               (calculate_metrics 300000 2000 600 300000 5.5 30 5 3 25 9000 0 2 3) = 1300"
    by (simp add: calculate_metrics_def Let_def)
  have ii: "initial_investment
              (calculate_metrics 300000 2000 600 300000 5.5 30 5 3 25 9000 0 2 3) = 309000"
    by (simp add: calculate_metrics_def Let_def)
  have neg: "monthly_cash_flow
               (calculate_metrics 300000 500 600 300000 5.5 30 5 3 25 9000 0 2 3) = - 125"
    by (simp add: calculate_metrics_def Let_def)
  from break_even_months_value [of 300000 2000 600 300000 "5.5" 30 5 3 25 9000 0 2 3]
       break_even_months_value [of 300000 500 600 300000 "5.5" 30 5 3 25 9000 0 2 3]
  show ?thesis
    unfolding Let_def pos ii neg by simp
qed

text \<open>
  The claim as the specification words it asks for a marker that is not a numeric
  infinity whenever the cash flow is not positive. At a rent of 500 against expenses
  of 600 the cash flow is not positive and the result is the numeric infinity.
\<close>

theorem break_even_marker_counterexample:
  "\<not> (monthly_cash_flow (calculate_metrics 300000 500 600 300000 5.5 30 5 3 25 9000 0 2 3) \<le> 0
       \<longrightarrow> break_even_months (calculate_metrics 300000 500 600 300000 5.5 30 5 3 25 9000 0 2 3)
             \<noteq> PosInf)"
  by (simp add: calculate_metrics_def Let_def)

section \<open>Mortgage payment\<close>

text \<open>
  Claim C4. With \<open>L = price - down_payment\<close>, \<open>r = loan_rate / 12 / 100\<close> and
  \<open>n = loan_term * 12\<close>: when all three are positive, \<^verbatim>\<open>mortgage_payment\<close> is
  \<open>L r (1 + r)\<^sup>n / ((1 + r)\<^sup>n - 1)\<close>, which is positive; when the loan amount, the
  monthly rate or the loan term is zero or negative, it is exactly 0.
\<close>

theorem mortgage_payment_formula:
  "let L = price - down_payment; r = loan_rate / 12 / 100; n = loan_term * 12;
       M = mortgage_payment (calculate_metrics price rental_income expenses down_payment
             loan_rate loan_term vacancy_rate appreciation_rate tax_rate closing_costs
             renovation_costs annual_income_growth annual_expense_growth)
   in (L > 0 \<and> r > 0 \<and> n > 0 \<longrightarrow>
         M = L * r * (1 + r) ^ nat n / ((1 + r) ^ nat n - 1) \<and> M > 0) \<and>
      (L \<le> 0 \<or> r \<le> 0 \<or> loan_term \<le> 0 \<longrightarrow> M = 0)"
proof -
  have "0 < L * r * (1 + r) ^ nat n / ((1 + r) ^ nat n - 1)"
    if "0 < L" "0 < r" "0 < n" for L r :: real and n :: int
  proof -
    from that have "1 < (1 + r) ^ nat n"
      by simp
    with that show ?thesis by simp
  qed
  then show ?thesis
    by (auto simp add: calculate_metrics_def Let_def py_pow_nonneg)
qed

text \<open>
  A one-year loan of 240000 at 6 percent, and the three cases without a loan: nothing
  borrowed, a rate of zero, a term of zero.
\<close>

theorem mortgage_payment_formula_witness:
  "mortgage_payment (calculate_metrics 300000 2000 600 60000 6 1 5 3 25 9000 0 2 3)
     = 240000 * (1 / 200) * (201 / 200) ^ 12 / ((201 / 200) ^ 12 - 1) \<and>
   mortgage_payment (calculate_metrics 300000 2000 600 60000 6 1 5 3 25 9000 0 2 3) > 0 \<and>
   mortgage_payment (calculate_metrics 300000 2000 600 300000 6 30 5 3 25 9000 0 2 3) = 0 \<and>
   mortgage_payment (calculate_metrics 300000 2000 600 60000 0 30 5 3 25 9000 0 2 3) = 0 \<and>
   mortgage_payment (calculate_metrics 300000 2000 600 60000 6 0 5 3 25 9000 0 2 3) = 0"
  using mortgage_payment_formula [of 300000 60000 6 1 2000 600 5 3 25 9000 0 2 3]
        mortgage_payment_formula [of 300000 300000 6 30 2000 600 5 3 25 9000 0 2 3]
        mortgage_payment_formula [of 300000 60000 0 30 2000 600 5 3 25 9000 0 2 3]
        mortgage_payment_formula [of 300000 60000 6 0 2000 600 5 3 25 9000 0 2 3]
  unfolding Let_def by simp

text \<open>
  Claim C5. The payment computed at the head of the projection is the payment that
  \<^verbatim>\<open>calculate_metrics\<close> returns for the same price, down payment, rate and term,
  whatever the other arguments are; and every projection row carries twelve times that
  payment as its \<^verbatim>\<open>annual_mortgage\<close>.
\<close>

theorem mortgage_payment_agrees:
  "projection_mortgage_payment price down_payment loan_rate loan_term
     = mortgage_payment (calculate_metrics price rental_income expenses down_payment
         loan_rate loan_term vacancy_rate appreciation_rate tax_rate closing_costs
         renovation_costs annual_income_growth annual_expense_growth) \<and>
   (\<forall>row \<in> set (calculate_cash_flow_projection price rental_income' expenses' down_payment
                     loan_rate loan_term vacancy_rate' appreciation_rate' years
                     annual_income_growth' annual_expense_growth').
      annual_mortgage row
        = mortgage_payment (calculate_metrics price rental_income expenses down_payment
            loan_rate loan_term vacancy_rate appreciation_rate tax_rate closing_costs
            renovation_costs annual_income_growth annual_expense_growth) * 12)"
proof -
  have eq: "projection_mortgage_payment price down_payment loan_rate loan_term
     = mortgage_payment (calculate_metrics price rental_income expenses down_payment
         loan_rate loan_term vacancy_rate appreciation_rate tax_rate closing_costs
         renovation_costs annual_income_growth annual_expense_growth)"
    by (simp add: projection_mortgage_payment_def calculate_metrics_def Let_def)
  show ?thesis
    unfolding eq [symmetric]
    by (auto simp add: projection_rows_map projection_step_def Let_def)
qed

text \<open>
  A one-year loan of 240000 at 6 percent: the first of five projection rows, computed
  for other rents and rates, carries twelve payments of \<^verbatim>\<open>calculate_metrics\<close>.
\<close>

theorem mortgage_payment_agrees_witness:
  "projection_mortgage_payment 300000 60000 6 1
     = mortgage_payment (calculate_metrics 300000 2000 600 60000 6 1 5 3 25 9000 0 2 3) \<and>
   hd (calculate_cash_flow_projection 300000 1800 500 60000 6 1 4 2 5 1 2)
     \<in> set (calculate_cash_flow_projection 300000 1800 500 60000 6 1 4 2 5 1 2) \<and>
   annual_mortgage (hd (calculate_cash_flow_projection 300000 1800 500 60000 6 1 4 2 5 1 2))
     = mortgage_payment (calculate_metrics 300000 2000 600 60000 6 1 5 3 25 9000 0 2 3) * 12"
proof -
  have "length (calculate_cash_flow_projection 300000 1800 500 60000 6 1 4 2 5 1 2) = 5"
    by (simp add: projection_rows_map)
  then have mem: "hd (calculate_cash_flow_projection 300000 1800 500 60000 6 1 4 2 5 1 2)
      \<in> set (calculate_cash_flow_projection 300000 1800 500 60000 6 1 4 2 5 1 2)"
    by (intro hd_in_set) auto
  from mortgage_payment_agrees
         [of 300000 60000 6 1 2000 600 5 3 25 9000 0 2 3 1800 500 4 2 5 1 2] mem
  show ?thesis by blast
qed

section \<open>Tax savings and returns\<close>

text \<open>
  Claim C6. \<^verbatim>\<open>tax_savings\<close> is the larger of 0 and taxable income times the tax
  rate over 100, where taxable income is twelve times the effective rent, less twelve
  times the expenses, less \<open>0.8 price / 27.5\<close>, less twelve mortgage payments times the
  loan rate over 100. It is never negative, and \<^verbatim>\<open>after_tax_cash_flow\<close> is the
  annual cash flow plus the tax savings.
\<close>

theorem tax_savings_value:
  "let m = calculate_metrics price rental_income expenses down_payment loan_rate loan_term
             vacancy_rate appreciation_rate tax_rate closing_costs renovation_costs
             annual_income_growth annual_expense_growth;
       effective_rental_income = rental_income * (1 - vacancy_rate / 100);
       taxable_income = effective_rental_income * 12 - expenses * 12 - (price * 0.8) / 27.5
                        - mortgage_payment m * 12 * loan_rate / 100
   in tax_savings m = max 0 (taxable_income * tax_rate / 100) \<and>
      tax_savings m \<ge> 0 \<and>
      after_tax_cash_flow m = metrics.annual_cash_flow m + tax_savings m"
  by (simp add: calculate_metrics_def Let_def algebra_simps)

text \<open>
  Claim C9. \<^verbatim>\<open>roi\<close> and \<^verbatim>\<open>cash_on_cash\<close> are always equal. With a positive
  initial investment (down payment plus closing costs plus renovation costs) both are
  the annual cash flow over the initial investment, times 100; with an initial
  investment of 0 both are 0; with a price of 0 the cap rate is 0.
\<close>

theorem roi_cash_on_cash_cap_rate:
  "let m = calculate_metrics price rental_income expenses down_payment loan_rate loan_term
             vacancy_rate appreciation_rate tax_rate closing_costs renovation_costs
             annual_income_growth annual_expense_growth;
       ii = down_payment + closing_costs + renovation_costs
   in roi m = cash_on_cash m \<and>
      initial_investment m = ii \<and>
      (ii > 0 \<longrightarrow> roi m = metrics.annual_cash_flow m / ii * 100) \<and>
      (ii = 0 \<longrightarrow> roi m = 0 \<and> cash_on_cash m = 0) \<and>
      (price = 0 \<longrightarrow> cap_rate m = 0)"
  by (simp add: calculate_metrics_def Let_def)

text \<open>
  An all-cash purchase with 309000 invested returns 15600 a year; and the degenerate
  call with nothing invested and a price of 0.
\<close>

theorem roi_cash_on_cash_cap_rate_witness:
  "roi (calculate_metrics 300000 2000 600 300000 5 30 5 3 25 9000 0 2 3) = 520 / 103 \<and>
   cash_on_cash (calculate_metrics 300000 2000 600 300000 5 30 5 3 25 9000 0 2 3) = 520 / 103 \<and>
   roi (calculate_metrics 0 2000 600 0 5 30 5 3 25 0 0 2 3) = 0 \<and>
   cash_on_cash (calculate_metrics 0 2000 600 0 5 30 5 3 25 0 0 2 3) = 0 \<and>
   cap_rate (calculate_metrics 0 2000 600 0 5 30 5 3 25 0 0 2 3) = 0"
proof -
  have acf: "metrics.annual_cash_flow
               (calculate_metrics 300000 2000 600 300000 5 30 5 3 25 9000 0 2 3) = 15600"
    by (simp add: calculate_metrics_def Let_def)
  from roi_cash_on_cash_cap_rate [of 300000 2000 600 300000 5 30 5 3 25 9000 0 2 3]
       roi_cash_on_cash_cap_rate [of 0 2000 600 0 5 30 5 3 25 0 0 2 3]
  show ?thesis
    unfolding Let_def acf by simp
qed

section \<open>Projection rows\<close>

text \<open>
  Claim C3. For \<open>1 \<le> t \<le> years\<close> the projection has \<open>years\<close> rows and its \<open>t\<close>-th row
  is the row of year \<open>t\<close>: income and expenses grown by their rates to the power
  \<open>t - 1\<close> (so the first row uses the base values), the property value grown by the
  appreciation rate to the power \<open>t\<close>, the annual cash flow as income less expenses
  less mortgage, and \<^verbatim>\<open>cumulative_cash_flow\<close> as that year's cash flow times \<open>t\<close>.
\<close>

theorem projection_row_values:
  "1 \<le> t \<Longrightarrow> t \<le> years \<Longrightarrow>
   (let rows = calculate_cash_flow_projection price rental_income expenses down_payment
                 loan_rate loan_term vacancy_rate appreciation_rate years
                 annual_income_growth annual_expense_growth;
        row = rows ! nat (t - 1);
        year_rental_income = rental_income * (1 + annual_income_growth / 100) ^ nat (t - 1);
        year_expenses = expenses * (1 + annual_expense_growth / 100) ^ nat (t - 1)
    in length rows = nat years \<and>
       year row = t \<and>
       annual_income row = year_rental_income * (1 - vacancy_rate / 100) * 12 \<and>
       annual_expenses row = year_expenses * 12 \<and>
       annual_mortgage row
         = projection_mortgage_payment price down_payment loan_rate loan_term * 12 \<and>
       property_value row = price * (1 + appreciation_rate / 100) ^ nat t \<and>
       annual_cash_flow row
         = annual_income row - annual_expenses row - annual_mortgage row \<and>
       cumulative_cash_flow row = annual_cash_flow row * of_int t)"
proof -
  assume t: "1 \<le> t" "t \<le> years"
  then have len: "nat (t - 1) < length [1..years]"
    by simp
  have nth: "[1..years] ! nat (t - 1) = t"
    using t by (rule upto_from_one_nth)
  show ?thesis
    unfolding projection_rows_map Let_def
    using t by (simp add: nth_map [OF len] nth projection_step_def Let_def py_pow_nonneg)
qed

text \<open>
  Five years of an all-cash purchase: the first row uses the base rent and expenses,
  and the second row's cumulative figure is twice its own cash flow, which is not the
  sum of the first two years' cash flows.
\<close>

theorem projection_row_values_witness:
  "(let rows = calculate_cash_flow_projection 300000 2000 600 300000 6 30 5 3 5 2 3
    in length rows = 5 \<and>
       annual_income (rows ! 0) = 2000 * (1 - 5 / 100) * 12 \<and>
       annual_expenses (rows ! 0) = 600 * 12 \<and>
       annual_cash_flow (rows ! 0) = 15600 \<and>
       cumulative_cash_flow (rows ! 0) = 15600 \<and>
       annual_cash_flow (rows ! 1) = 1584 * 10 \<and>
       cumulative_cash_flow (rows ! 1) = 1584 * 10 * 2 \<and>
       cumulative_cash_flow (rows ! 1)
         \<noteq> annual_cash_flow (rows ! 0) + annual_cash_flow (rows ! 1))"
proof -
  have pm: "projection_mortgage_payment 300000 300000 6 30 = 0"
    by (simp add: projection_mortgage_payment_def)
  from projection_row_values [of 1 5 300000 2000 600 300000 6 30 5 3 2 3]
       projection_row_values [of 2 5 300000 2000 600 300000 6 30 5 3 2 3]
  show ?thesis
    unfolding Let_def pm by (simp add: numeral_2_eq_2 [symmetric] power2_eq_square)
qed

section \<open>Risk analysis: failure and independence of the location\<close>

text \<open>
  Claim C2. The divisions by \<^verbatim>\<open>rental_income * 12\<close> are not guarded: with a rent of
  0, which the form accepts, \<^verbatim>\<open>analyze_risk\<close> raises \<^verbatim>\<open>ZeroDivisionError\<close> and
  returns no assessment.
\<close>

theorem analyze_risk_zero_rent:
  "analyze_risk 300000 5 600 0 ''Stable'' 15 ''Suburban'' = Inl ZeroDivisionError"
  by (simp add: analyze_risk_def MARKET_CONDITIONS_def)

text \<open>
  Claim C10. Two calls that differ only in \<^verbatim>\<open>location\<close> give the same outcome:
  the same assessment, with the same scores, descriptions, risk score and overall risk,
  or the same exception.
\<close>

theorem analyze_risk_ignores_location:
  "analyze_risk price vacancy_rate expenses rental_income market_condition property_age location
     = analyze_risk price vacancy_rate expenses rental_income market_condition property_age
         location'"
  by (simp add: analyze_risk_def)

end
